theory Spec2Isabelle
  imports Main "HOL-Library.Sublist" "HOL-Library.Char_ord" "HOL-Library.List_Lexorder"
    "HOL-Library.Multiset"
begin

section \<open>Strings and POSIX path names\<close>

text \<open>
  Python strings are modelled as \<open>string\<close>; a character stands for its code point
  (below 256). Comparison of strings is the lexicographic order on code points, as
  Python's \<open>sorted\<close> uses it.
\<close>

definition is_space :: "char \<Rightarrow> bool" where
  \<comment> \<open>\<open>str.isspace\<close> on the code points below 256\<close>
  "is_space c =
     (let n = (of_char c :: nat)
      in (9 \<le> n \<and> n \<le> 13) \<or> (28 \<le> n \<and> n \<le> 32) \<or> n = 133 \<or> n = 160)"

definition strip :: "string \<Rightarrow> string" where
  \<comment> \<open>\<open>str.strip()\<close>\<close>
  "strip s = rev (dropWhile is_space (rev (dropWhile is_space s)))"

fun py_split_acc :: "string \<Rightarrow> string \<Rightarrow> string list" where
  "py_split_acc cur [] = (if cur = [] then [] else [cur])"
| "py_split_acc cur (c # cs) =
     (if is_space c
      then (if cur = [] then py_split_acc [] cs else cur # py_split_acc [] cs)
      else py_split_acc (cur @ [c]) cs)"

definition py_split :: "string \<Rightarrow> string list" where
  \<comment> \<open>\<open>str.split()\<close>: the maximal runs of non-space characters\<close>
  "py_split s = py_split_acc [] s"

fun split_on_acc :: "char \<Rightarrow> string \<Rightarrow> string \<Rightarrow> string list" where
  "split_on_acc sep cur [] = [cur]"
| "split_on_acc sep cur (c # cs) =
     (if c = sep then cur # split_on_acc sep [] cs else split_on_acc sep (cur @ [c]) cs)"

definition split_on :: "char \<Rightarrow> string \<Rightarrow> string list" where
  \<comment> \<open>\<open>str.split(sep)\<close> for a one-character separator\<close>
  "split_on sep s = split_on_acc sep [] s"

fun join_with :: "string \<Rightarrow> string list \<Rightarrow> string" where
  \<comment> \<open>\<open>sep.join(parts)\<close>\<close>
  "join_with sep [] = []"
| "join_with sep [x] = x"
| "join_with sep (x # y # ys) = x @ sep @ join_with sep (y # ys)"

definition lstrip_slash :: "string \<Rightarrow> string" where
  \<comment> \<open>\<open>s.lstrip('/')\<close>\<close>
  "lstrip_slash s = dropWhile (\<lambda>c. c = CHR ''/'') s"

definition path_join :: "string \<Rightarrow> string \<Rightarrow> string" where
  \<comment> \<open>\<open>os.path.join(a, b)\<close> of posixpath\<close>
  "path_join a b =
     (if prefix ''/'' b then b
      else if a = [] \<or> suffix ''/'' a then a @ b
      else a @ ''/'' @ b)"

fun normpath_comps :: "bool \<Rightarrow> string list \<Rightarrow> string list \<Rightarrow> string list" where
  \<comment> \<open>the loop of \<open>posixpath.normpath\<close>; \<open>new_comps\<close> is the second argument\<close>
  "normpath_comps initial new_comps [] = new_comps"
| "normpath_comps initial new_comps (cmp # comps) =
     (if cmp = [] \<or> cmp = ''.'' then normpath_comps initial new_comps comps
      else if cmp \<noteq> ''..'' \<or> (\<not> initial \<and> new_comps = [])
              \<or> (new_comps \<noteq> [] \<and> last new_comps = ''..'')
      then normpath_comps initial (new_comps @ [cmp]) comps
      else if new_comps \<noteq> [] then normpath_comps initial (butlast new_comps) comps
      else normpath_comps initial new_comps comps)"

definition normpath :: "string \<Rightarrow> string" where
  \<comment> \<open>\<open>os.path.normpath\<close> of posixpath: lexical, no look at the file system\<close>
  "normpath p =
     (if p = [] then ''.''
      else
        let initial_slashes =
              (if prefix ''/'' p
               then (if prefix ''//'' p \<and> \<not> prefix ''///'' p then 2 else 1)
               else (0::nat));
            comps = normpath_comps (initial_slashes \<noteq> 0) [] (split_on CHR ''/'' p);
            q = replicate initial_slashes CHR ''/'' @ join_with ''/'' comps
        in if q = [] then ''.'' else q)"

section \<open>The CA index file\<close>

record client =
  c_cn :: string
  c_status :: string
  c_serial :: string
  c_expiry_raw :: string

fun universal_newlines :: "string \<Rightarrow> string" where
  \<comment> \<open>text mode: \<open>\r\n\<close> and a lone \<open>\r\<close> are read as \<open>\n\<close>\<close>
  "universal_newlines [] = []"
| "universal_newlines [c] = [if c = CHR 0x0D then CHR 0x0A else c]"
| "universal_newlines (c # d # cs) =
     (if c = CHR 0x0D
      then (if d = CHR 0x0A then CHR 0x0A # universal_newlines cs
            else CHR 0x0A # universal_newlines (d # cs))
      else c # universal_newlines (d # cs))"

definition file_lines :: "string \<Rightarrow> string list" where
  \<comment> \<open>the lines \<open>for line in f\<close> yields; the line terminator is dropped here, the loop
      body strips it anyway\<close>
  "file_lines txt = split_on (CHR 0x0A) (universal_newlines txt)"

fun find_cn :: "string list \<Rightarrow> string option" where
  \<comment> \<open>the first segment that starts with \<open>CN=\<close>, without that prefix\<close>
  "find_cn [] = None"
| "find_cn (part # parts) = (if prefix ''CN='' part then Some (drop 3 part) else find_cn parts)"

definition subject_cn :: "string \<Rightarrow> string" where
  \<comment> \<open>the Common Name of a subject string, \<open>cn or "?"\<close>\<close>
  "subject_cn subject =
     (let cn = (if prefix ''/'' subject then find_cn (split_on CHR ''/'' subject) else None)
      in case cn of None \<Rightarrow> ''?'' | Some v \<Rightarrow> if v = [] then ''?'' else v)"

definition parse_index_line :: "string \<Rightarrow> client option" where
  \<comment> \<open>the body of the loop over the lines of index.txt; \<open>None\<close> is \<open>continue\<close>\<close>
  "parse_index_line raw =
     (let line = strip raw in
      if line = [] then None
      else
        let parts = py_split line in
        if length parts < 5 then None
        else
          let status = parts ! 0;
              expiry_raw = parts ! 1;
              serial = parts ! 3;
              subject = last parts
          in Some \<lparr> c_cn = subject_cn subject,
                    c_status = status,
                    c_serial = serial,
                    c_expiry_raw = expiry_raw \<rparr>)"

definition parse_index :: "string \<Rightarrow> client list" where
  "parse_index txt = List.map_filter parse_index_line (file_lines txt)"

section \<open>The file system\<close>

text \<open>
  The file system is a tree of directories, regular files and other objects (sockets,
  pipes, devices). There are no symbolic links and no hard links in this model, so
  \<open>os.walk(..., followlinks=False)\<close> meets nothing it would refuse to follow, and
  \<open>os.path.islink\<close> is false everywhere. A relative path is resolved from the root
  directory.
\<close>

datatype error =
    FileNotFoundError
  | NotADirectoryError
  | IsADirectoryError
  | PermissionError
  | FileExistsError
  | SameFileError
  | SpecialFileError
  | ReadError
  | JSONDecodeError
  | RuntimeError
  | ValueError
  | CalledProcessError

record meta =
  st_mode :: nat
  st_uid :: nat
  st_gid :: nat
  readable :: bool  \<comment> \<open>whether this process may open the file for reading\<close>

datatype node =
    File meta string
  | Dir "(string \<times> node) list"
  | Special

record stat_result =
  s_size :: nat
  s_mode :: nat
  s_uid :: nat
  s_gid :: nat

fun get :: "node \<Rightarrow> string list \<Rightarrow> node option" where
  \<comment> \<open>the object at a list of names, read from the root downwards\<close>
  "get n [] = Some n"
| "get (Dir es) (c # cs) = (case map_of es c of None \<Rightarrow> None | Some m \<Rightarrow> get m cs)"
| "get n (c # cs) = None"

fun canon_from :: "node \<Rightarrow> string list \<Rightarrow> string list \<Rightarrow> error + string list" where
  \<comment> \<open>path resolution as the kernel does it: \<open>cur\<close> is the directory reached so far\<close>
  "canon_from fs cur [] = Inr cur"
| "canon_from fs cur (c # cs) =
     (case get fs cur of
        Some (Dir es) \<Rightarrow>
          if c = [] \<or> c = ''.'' then canon_from fs cur cs
          else if c = ''..'' then canon_from fs (butlast cur) cs
          else (case get fs (cur @ [c]) of
                  None \<Rightarrow> Inl FileNotFoundError
                | Some m \<Rightarrow> canon_from fs (cur @ [c]) cs)
      | _ \<Rightarrow> Inl NotADirectoryError)"

definition resolve :: "node \<Rightarrow> string \<Rightarrow> error + string list" where
  "resolve fs p =
     (if p = [] then Inl FileNotFoundError else canon_from fs [] (split_on CHR ''/'' p))"

definition lookup :: "node \<Rightarrow> string \<Rightarrow> error + node" where
  "lookup fs p =
     (case resolve fs p of
        Inl e \<Rightarrow> Inl e
      | Inr cp \<Rightarrow> (case get fs cp of None \<Rightarrow> Inl FileNotFoundError | Some n \<Rightarrow> Inr n))"

definition os_path_exists :: "node \<Rightarrow> string \<Rightarrow> bool" where
  "os_path_exists fs p = (case lookup fs p of Inl e \<Rightarrow> False | Inr n \<Rightarrow> True)"

definition os_path_isfile :: "node \<Rightarrow> string \<Rightarrow> bool" where
  "os_path_isfile fs p = (case lookup fs p of Inr (File m d) \<Rightarrow> True | _ \<Rightarrow> False)"

definition os_path_isdir :: "node \<Rightarrow> string \<Rightarrow> bool" where
  "os_path_isdir fs p = (case lookup fs p of Inr (Dir es) \<Rightarrow> True | _ \<Rightarrow> False)"

definition os_path_islink :: "node \<Rightarrow> string \<Rightarrow> bool" where
  "os_path_islink fs p = False"

definition node_stat :: "node \<Rightarrow> stat_result" where
  \<comment> \<open>only the stat of a regular file is ever used: hashing anything else raises first\<close>
  "node_stat n =
     (case n of
        File m d \<Rightarrow> \<lparr> s_size = length d, s_mode = st_mode m, s_uid = st_uid m, s_gid = st_gid m \<rparr>
      | _ \<Rightarrow> \<lparr> s_size = 0, s_mode = 0, s_uid = 0, s_gid = 0 \<rparr>)"

definition os_lstat :: "node \<Rightarrow> string \<Rightarrow> error + stat_result" where
  "os_lstat fs p = (case lookup fs p of Inl e \<Rightarrow> Inl e | Inr n \<Rightarrow> Inr (node_stat n))"

definition read_file :: "node \<Rightarrow> string \<Rightarrow> error + string" where
  \<comment> \<open>\<open>open(path).read()\<close>\<close>
  "read_file fs p =
     (case lookup fs p of
        Inl e \<Rightarrow> Inl e
      | Inr (File m d) \<Rightarrow> if readable m then Inr d else Inl PermissionError
      | Inr (Dir es) \<Rightarrow> Inl IsADirectoryError
      | Inr Special \<Rightarrow> Inl SpecialFileError)"

section \<open>Configuration\<close>

definition BACKUP_ROOTS :: "string list" where
  "BACKUP_ROOTS = [''/etc/openvpn'', ''/etc/iptables'', ''/root'']"

definition MANIFEST_NAME :: string where
  "MANIFEST_NAME = ''manifest.json''"

definition TMP_STAGING_PREFIX :: string where
  "TMP_STAGING_PREFIX = ''/tmp/restore_staging_''"

definition EXCLUDE_PATHS :: "string list" where
  "EXCLUDE_PATHS = [''/root/.bash_history'', ''/root/.cache'', ''/root/backups/.tmp'']"

definition EXCLUDE_SUFFIXES :: "string list" where
  "EXCLUDE_SUFFIXES = [''.pyc'', ''.log'', ''.swp'']"

definition STRICT_PURGE :: bool where
  "STRICT_PURGE = True"

definition AUTO_REGEN_CRL :: bool where
  "AUTO_REGEN_CRL = True"

definition EASYRSA_DIR :: string where
  "EASYRSA_DIR = ''/etc/openvpn/easy-rsa''"

section \<open>Utilities\<close>

definition sha256_file :: "(string \<Rightarrow> string) \<Rightarrow> node \<Rightarrow> string \<Rightarrow> error + string" where
  \<comment> \<open>\<open>H\<close> is SHA-256 as a hexadecimal string; reading in chunks of 64 KiB gives the
      digest of the whole content\<close>
  "sha256_file H fs p = (case read_file fs p of Inl e \<Rightarrow> Inl e | Inr d \<Rightarrow> Inr (H d))"

definition is_excluded :: "string \<Rightarrow> bool" where
  "is_excluded p =
     (let norm = normpath p
      in if norm \<in> set EXCLUDE_PATHS then True
         else if list_ex (\<lambda>suf. suffix suf norm) EXCLUDE_SUFFIXES then True
         else False)"

definition is_dir_node :: "node \<Rightarrow> bool" where
  "is_dir_node n = (case n of Dir es \<Rightarrow> True | _ \<Rightarrow> False)"

fun os_walk :: "(string \<Rightarrow> string list \<Rightarrow> string list) \<Rightarrow> string \<Rightarrow> node
                \<Rightarrow> (string \<times> string list \<times> string list) list" where
  \<comment> \<open>\<open>os.walk(tp)\<close>, top down: \<open>prune tp dirs\<close> is what the loop body leaves in
      \<open>dirs\<close> before the walk descends\<close>
  "os_walk prune tp (Dir es) =
     (let dirs = map fst (filter (\<lambda>kv. is_dir_node (snd kv)) es);
          files = map fst (filter (\<lambda>kv. \<not> is_dir_node (snd kv)) es);
          dirs' = prune tp dirs
      in (tp, dirs', files) #
         concat (map (\<lambda>kv. if fst kv \<in> set dirs' \<and> is_dir_node (snd kv)
                            then os_walk prune (path_join tp (fst kv)) (snd kv) else [])
                     es))"
| "os_walk prune tp n = []"

definition prune_excluded :: "string \<Rightarrow> string list \<Rightarrow> string list" where
  \<comment> \<open>\<open>for d in list(dirs): if is_excluded(join(base, d)): dirs.remove(d)\<close>\<close>
  "prune_excluded base dirs =
     fold (\<lambda>d ds. if is_excluded (path_join base d) then remove1 d ds else ds) dirs dirs"

definition iter_files :: "node \<Rightarrow> string \<Rightarrow> string list" where
  "iter_files fs root =
     (case lookup fs root of
        Inl e \<Rightarrow> []
      | Inr n \<Rightarrow>
          concat (map (\<lambda>(base, dirs, files).
                         filter (\<lambda>p. \<not> is_excluded p \<and> os_path_isfile fs p)
                                (map (path_join base) files))
                      (os_walk prune_excluded root n)))"

section \<open>Manifest\<close>

record file_rec =
  f_path :: string
  f_sha256 :: string
  f_size :: nat
  f_mode :: string
  f_uid :: nat
  f_gid :: nat

record pki_info =
  pki_root :: "string option"
  index_sha256 :: "string option"
  pki_serial :: "string option"
  clients :: "client list"

record manifest =
  m_version :: nat
  m_created_at :: string
  m_roots :: "string list"
  m_files :: "file_rec list"
  m_openvpn_pki :: pki_info

text \<open>
  The builder and the diff engine only read the file system, while other processes may
  change it. A \<open>timeline\<close> gives the file system each of their observations finds:
  \<open>tm t\<close> is the tree at the moment of observation number \<open>t\<close>. One traversal of a
  root, one \<open>lstat\<close>, one reading of a file are one observation each. A constant
  timeline is a file system that nobody changes.
\<close>

type_synonym timeline = "nat \<Rightarrow> node"

definition still :: "node \<Rightarrow> timeline" where
  \<comment> \<open>a file system that nobody changes\<close>
  "still fs = (\<lambda>t. fs)"

definition switch_at :: "nat \<Rightarrow> node \<Rightarrow> node \<Rightarrow> timeline" where
  \<comment> \<open>the tree \<open>a\<close> up to observation \<open>k\<close>, the tree \<open>b\<close> from then on\<close>
  "switch_at k a b = (\<lambda>t. if t < k then a else b)"

function oct_digits :: "nat \<Rightarrow> string" where
  "oct_digits n =
     (if n < 8 then [''01234567'' ! n] else oct_digits (n div 8) @ [''01234567'' ! (n mod 8)])"
  by pat_completeness auto
termination
  by (relation "measure id") auto

declare oct_digits.simps [simp del]

definition oct :: "nat \<Rightarrow> string" where
  "oct n = ''0o'' @ oct_digits n"

definition S_IMODE :: "nat \<Rightarrow> nat" where
  \<comment> \<open>\<open>mode & 0o7777\<close>\<close>
  "S_IMODE m = m mod 4096"

fun build_files :: "(string \<Rightarrow> string) \<Rightarrow> timeline \<Rightarrow> nat \<Rightarrow> string list
                    \<Rightarrow> error + (file_rec list \<times> nat)" where
  \<comment> \<open>the loop \<open>for fp in flist\<close>; only \<open>FileNotFoundError\<close> from \<open>os.lstat\<close> is caught\<close>
  "build_files H tm t [] = Inr ([], t)"
| "build_files H tm t (fp # fps) =
     (case os_lstat (tm t) fp of
        Inl e \<Rightarrow> if e = FileNotFoundError then build_files H tm (Suc t) fps else Inl e
      | Inr st \<Rightarrow>
          (case sha256_file H (tm (Suc t)) fp of
             Inl e \<Rightarrow> Inl e
           | Inr h \<Rightarrow>
               (case build_files H tm (Suc (Suc t)) fps of
                  Inl e \<Rightarrow> Inl e
                | Inr (recs, t') \<Rightarrow>
                    Inr (\<lparr> f_path = fp, f_sha256 = h, f_size = s_size st,
                            f_mode = oct (S_IMODE (s_mode st)),
                            f_uid = s_uid st, f_gid = s_gid st \<rparr> # recs, t'))))"

fun build_roots :: "(string \<Rightarrow> string) \<Rightarrow> timeline \<Rightarrow> nat \<Rightarrow> string list
                    \<Rightarrow> error + (file_rec list \<times> nat)" where
  \<comment> \<open>the loop \<open>for r in roots\<close>\<close>
  "build_roots H tm t [] = Inr ([], t)"
| "build_roots H tm t (r # rs) =
     (let flist = iter_files (tm t) (normpath r)
      in case build_files H tm (Suc t) flist of
           Inl e \<Rightarrow> Inl e
         | Inr (recs, t') \<Rightarrow>
             (case build_roots H tm t' rs of
                Inl e \<Rightarrow> Inl e
              | Inr (recs', t'') \<Rightarrow> Inr (recs @ recs', t'')))"

definition read_pki :: "(string \<Rightarrow> string) \<Rightarrow> timeline \<Rightarrow> nat \<Rightarrow> pki_info" where
  \<comment> \<open>the PKI part of \<open>build_manifest\<close>; every exception in it is swallowed\<close>
  "read_pki H tm t =
     (let pki_dir = path_join EASYRSA_DIR ''pki'';
          index_path = path_join pki_dir ''index.txt'';
          serial_path = path_join pki_dir ''serial'';
          (index_sha, cls) =
            (if os_path_exists (tm t) index_path
             then (case sha256_file H (tm (t + 1)) index_path of
                     Inl e \<Rightarrow> (None, [])
                   | Inr h \<Rightarrow>
                       (case read_file (tm (t + 2)) index_path of
                          Inl e \<Rightarrow> (Some h, [])
                        | Inr txt \<Rightarrow> (Some h, parse_index txt)))
             else (None, []));
          serial_val =
            (if os_path_exists (tm (t + 3)) serial_path
             then (case read_file (tm (t + 4)) serial_path of
                     Inl e \<Rightarrow> None
                   | Inr txt \<Rightarrow> Some (strip txt))
             else None)
      in \<lparr> pki_root = (if os_path_exists (tm (t + 5)) pki_dir then Some pki_dir else None),
           index_sha256 = index_sha,
           pki_serial = serial_val,
           clients = cls \<rparr>)"

definition build_manifest :: "(string \<Rightarrow> string) \<Rightarrow> string \<Rightarrow> timeline \<Rightarrow> nat \<Rightarrow> string list
                               \<Rightarrow> error + manifest" where
  \<comment> \<open>\<open>now\<close> is the formatted time of the call\<close>
  "build_manifest H now tm t roots =
     (case build_roots H tm t roots of
        Inl e \<Rightarrow> Inl e
      | Inr (files_meta, t') \<Rightarrow>
          Inr \<lparr> m_version = 1,
                m_created_at = now,
                m_roots = roots,
                m_files = files_meta,
                m_openvpn_pki = read_pki H tm t' \<rparr>)"

section \<open>Diff\<close>

record diff_report =
  d_extra :: "string list"
  d_missing :: "string list"
  d_changed :: "string list"

definition recorded_of :: "file_rec list \<Rightarrow> (string \<rightharpoonup> file_rec)" where
  \<comment> \<open>\<open>{f["path"]: f for f in files}\<close>: a later record replaces an earlier one\<close>
  "recorded_of files = fold (\<lambda>f r. r(f_path f \<mapsto> f)) files Map.empty"

definition walk_roots :: "timeline \<Rightarrow> nat \<Rightarrow> string list \<Rightarrow> string list" where
  \<comment> \<open>\<open>current_all\<close>: the roots are traversed one after the other, as they are written\<close>
  "walk_roots tm t roots =
     concat (map (\<lambda>(i, r). iter_files (tm (t + i)) r) (enumerate 0 roots))"

definition common_paths :: "timeline \<Rightarrow> nat \<Rightarrow> manifest \<Rightarrow> string list" where
  \<comment> \<open>\<open>recorded_set & current_set\<close>, in the order the comparison loop visits it (a Python
      set has no order of its own; the ascending one is taken here)\<close>
  "common_paths tm t m =
     sorted_list_of_set (set (map f_path (m_files m)) \<inter> set (walk_roots tm t (m_roots m)))"

definition digest_changed :: "(string \<Rightarrow> string) \<Rightarrow> node \<Rightarrow> (string \<rightharpoonup> file_rec) \<Rightarrow> string \<Rightarrow> bool" where
  \<comment> \<open>the body of the comparison loop: \<open>True\<close> when the path is appended to \<open>changed\<close>,
      by a differing digest or by any exception\<close>
  "digest_changed H fs recorded p =
     (case sha256_file H fs p of
        Inl e \<Rightarrow> True
      | Inr current_hash \<Rightarrow>
          (case recorded p of
             None \<Rightarrow> True
           | Some f \<Rightarrow> current_hash \<noteq> f_sha256 f))"

definition compute_diff :: "(string \<Rightarrow> string) \<Rightarrow> timeline \<Rightarrow> nat \<Rightarrow> manifest \<Rightarrow> diff_report" where
  "compute_diff H tm t m =
     (let recorded = recorded_of (m_files m);
          current_set = set (walk_roots tm t (m_roots m));
          recorded_set = set (map f_path (m_files m));
          extra = sorted_list_of_set (current_set - recorded_set);
          missing = sorted_list_of_set (recorded_set - current_set);
          t1 = t + length (m_roots m);
          changed = map snd (filter (\<lambda>(i, p). digest_changed H (tm (t1 + i)) recorded p)
                                    (enumerate 0 (common_paths tm t m)))
      in \<lparr> d_extra = extra, d_missing = missing, d_changed = sort changed \<rparr>)"

section \<open>Changing the file system\<close>

text \<open>
  The restore side changes the file system. It runs alone (no timeline here): the state
  is the tree, passed from call to call, together with a log of the calls that were made,
  in the order they were made.
\<close>

datatype event =
    Makedirs string
  | ExtractAll string string
  | Remove string
  | Rmtree string
  | Copy2 string string
  | Chmod string nat
  | RunGenCrl
  | RunRestart
  | PurgeFailed string error  \<comment> \<open>the message printed by \<open>purge_extras\<close>\<close>
  | CopyFailed string string error  \<comment> \<open>the message printed by \<open>copy_from_staging\<close>\<close>

record world =
  w_fs :: node
  w_log :: "event list"

definition emit :: "event \<Rightarrow> world \<Rightarrow> world" where
  "emit e w = w\<lparr> w_log := w_log w @ [e] \<rparr>"

fun del_at :: "string list \<Rightarrow> node \<Rightarrow> node" where
  \<comment> \<open>the tree without the entry at a list of names\<close>
  "del_at [] n = n"
| "del_at [c] (Dir es) = Dir (filter (\<lambda>kv. fst kv \<noteq> c) es)"
| "del_at (c # d # cs) (Dir es) =
     Dir (map (\<lambda>kv. if fst kv = c then (fst kv, del_at (d # cs) (snd kv)) else kv) es)"
| "del_at (c # cs) n = n"

fun put_at :: "string list \<Rightarrow> node \<Rightarrow> node \<Rightarrow> node" where
  \<comment> \<open>the tree with \<open>new\<close> at a list of names, replacing what is there; the parent
      directory must exist\<close>
  "put_at [] new n = new"
| "put_at [c] new (Dir es) =
     (if map_of es c = None then Dir (es @ [(c, new)])
      else Dir (map (\<lambda>kv. if fst kv = c then (fst kv, new) else kv) es))"
| "put_at (c # d # cs) new (Dir es) =
     Dir (map (\<lambda>kv. if fst kv = c then (fst kv, put_at (d # cs) new (snd kv)) else kv) es)"
| "put_at (c # cs) new n = n"

definition os_remove :: "string \<Rightarrow> world \<Rightarrow> error option \<times> world" where
  \<comment> \<open>\<open>os.remove(p)\<close>: unlinks anything but a directory\<close>
  "os_remove p w =
     (let w' = emit (Remove p) w in
      case resolve (w_fs w) p of
        Inl e \<Rightarrow> (Some e, w')
      | Inr cp \<Rightarrow>
          (case get (w_fs w) cp of
             None \<Rightarrow> (Some FileNotFoundError, w')
           | Some (Dir es) \<Rightarrow> (Some IsADirectoryError, w')
           | Some n \<Rightarrow> (None, w'\<lparr> w_fs := del_at cp (w_fs w) \<rparr>)))"

definition shutil_rmtree :: "string \<Rightarrow> world \<Rightarrow> world" where
  \<comment> \<open>\<open>shutil.rmtree(p, ignore_errors=True)\<close>: removes a directory with all it holds;
      on anything else the error is ignored and nothing happens. The root directory
      itself cannot be removed, only emptied.\<close>
  "shutil_rmtree p w =
     (let w' = emit (Rmtree p) w in
      case resolve (w_fs w) p of
        Inl e \<Rightarrow> w'
      | Inr cp \<Rightarrow>
          (case get (w_fs w) cp of
             Some (Dir es) \<Rightarrow> w'\<lparr> w_fs := (if cp = [] then Dir [] else del_at cp (w_fs w)) \<rparr>
           | _ \<Rightarrow> w'))"

fun makedirs_from :: "node \<Rightarrow> string list \<Rightarrow> string list \<Rightarrow> error option \<times> node" where
  \<comment> \<open>\<open>os.makedirs(p, exist_ok=True)\<close>, name by name from the left; directories made
      before an error stay\<close>
  "makedirs_from fs cur [] = (None, fs)"
| "makedirs_from fs cur (c # cs) =
     (case get fs cur of
        Some (Dir es) \<Rightarrow>
          if c = [] \<or> c = ''.'' then makedirs_from fs cur cs
          else if c = ''..'' then makedirs_from fs (butlast cur) cs
          else (case get fs (cur @ [c]) of
                  None \<Rightarrow> makedirs_from (put_at (cur @ [c]) (Dir []) fs) (cur @ [c]) cs
                | Some (Dir es') \<Rightarrow> makedirs_from fs (cur @ [c]) cs
                | Some n \<Rightarrow> (Some (if cs = [] then FileExistsError else NotADirectoryError), fs))
      | _ \<Rightarrow> (Some NotADirectoryError, fs))"

definition os_makedirs :: "string \<Rightarrow> world \<Rightarrow> error option \<times> world" where
  "os_makedirs p w =
     (let w' = emit (Makedirs p) w in
      if p = [] then (Some FileNotFoundError, w')
      else case makedirs_from (w_fs w) [] (split_on CHR ''/'' p) of
             (r, fs') \<Rightarrow> (r, w'\<lparr> w_fs := fs' \<rparr>))"

definition basename :: "string \<Rightarrow> string" where
  \<comment> \<open>\<open>os.path.basename\<close>: what follows the last slash\<close>
  "basename p = last (split_on CHR ''/'' p)"

definition write_file :: "string \<Rightarrow> (meta option \<Rightarrow> meta) \<Rightarrow> string \<Rightarrow> node \<Rightarrow> error + node" where
  \<comment> \<open>\<open>open(p, "wb").write(d)\<close>; \<open>mk\<close> gives the attributes of the file from those of
      the file it replaces, if there is one\<close>
  "write_file p mk d fs =
     (if p = [] then Inl FileNotFoundError
      else
        let comps = split_on CHR ''/'' p; name = last comps in
        if name = [] \<or> name = ''.'' \<or> name = ''..''
        then (case lookup fs p of Inl e \<Rightarrow> Inl e | Inr n \<Rightarrow> Inl IsADirectoryError)
        else
          case canon_from fs [] (butlast comps) of
            Inl e \<Rightarrow> Inl e
          | Inr cp \<Rightarrow>
              (case get fs cp of
                 Some (Dir es) \<Rightarrow>
                   (case get fs (cp @ [name]) of
                      None \<Rightarrow> Inr (put_at (cp @ [name]) (File (mk None) d) fs)
                    | Some (File m old) \<Rightarrow> Inr (put_at (cp @ [name]) (File (mk (Some m)) d) fs)
                    | Some (Dir es') \<Rightarrow> Inl IsADirectoryError
                    | Some Special \<Rightarrow> Inl SpecialFileError)
               | _ \<Rightarrow> Inl NotADirectoryError))"

definition copied_meta :: "meta \<Rightarrow> meta option \<Rightarrow> meta" where
  \<comment> \<open>\<open>copystat\<close> carries the permission bits over, not the owner: a new file belongs
      to the user of the process (root, 0), an overwritten one keeps its owner\<close>
  "copied_meta src old =
     (case old of
        None \<Rightarrow> src\<lparr> st_uid := 0, st_gid := 0 \<rparr>
      | Some m \<Rightarrow> src\<lparr> st_uid := st_uid m, st_gid := st_gid m \<rparr>)"

definition shutil_copy2 :: "string \<Rightarrow> string \<Rightarrow> world \<Rightarrow> error option \<times> world" where
  "shutil_copy2 src dst w =
     (let w' = emit (Copy2 src dst) w;
          fs = w_fs w;
          dst' = (if os_path_isdir fs dst then path_join dst (basename src) else dst)
      in case lookup fs src of
           Inl e \<Rightarrow> (Some e, w')
         | Inr (Dir es) \<Rightarrow> (Some IsADirectoryError, w')
         | Inr Special \<Rightarrow> (Some SpecialFileError, w')
         | Inr (File m d) \<Rightarrow>
             if (case resolve fs dst' of Inl e \<Rightarrow> False | Inr cp \<Rightarrow> resolve fs src = Inr cp)
             then (Some SameFileError, w')
             else if \<not> readable m then (Some PermissionError, w')
             else (case write_file dst' (copied_meta m) d fs of
                     Inl e \<Rightarrow> (Some e, w')
                   | Inr fs' \<Rightarrow> (None, w'\<lparr> w_fs := fs' \<rparr>)))"

definition os_chmod :: "string \<Rightarrow> nat \<Rightarrow> world \<Rightarrow> error option \<times> world" where
  \<comment> \<open>only regular files carry attributes in this model\<close>
  "os_chmod p mode w =
     (let w' = emit (Chmod p mode) w in
      case resolve (w_fs w) p of
        Inl e \<Rightarrow> (Some e, w')
      | Inr cp \<Rightarrow>
          (case get (w_fs w) cp of
             Some (File m d) \<Rightarrow>
               (None, w'\<lparr> w_fs := put_at cp (File (m\<lparr> st_mode := (st_mode m div 4096) * 4096 + mode \<rparr>) d)
                                         (w_fs w) \<rparr>)
           | _ \<Rightarrow> (None, w')))"

section \<open>Purge\<close>

definition commonpath2 :: "string \<Rightarrow> string \<Rightarrow> error + string" where
  \<comment> \<open>\<open>os.path.commonpath([a, b])\<close> of posixpath\<close>
  "commonpath2 a b =
     (if prefix ''/'' a \<noteq> prefix ''/'' b then Inl ValueError
      else
        let sa = filter (\<lambda>c. c \<noteq> [] \<and> c \<noteq> ''.'') (split_on CHR ''/'' a);
            sb = filter (\<lambda>c. c \<noteq> [] \<and> c \<noteq> ''.'') (split_on CHR ''/'' b)
        in Inr ((if prefix ''/'' a then ''/'' else []) @ join_with ''/'' (longest_common_prefix sa sb)))"

fun inside_any_root :: "string \<Rightarrow> string list \<Rightarrow> error + bool" where
  \<comment> \<open>\<open>any(os.path.commonpath([path, r]) == r for r in roots)\<close>\<close>
  "inside_any_root p [] = Inr False"
| "inside_any_root p (r # rs) =
     (case commonpath2 p r of
        Inl e \<Rightarrow> Inl e
      | Inr c \<Rightarrow> if c = r then Inr True else inside_any_root p rs)"

definition purge_order :: "string list \<Rightarrow> string list" where
  \<comment> \<open>\<open>sorted(extra_list, key=lambda p: len(p), reverse=True)\<close>: longest first, paths of
      equal length in the order they had\<close>
  "purge_order extra_list = rev (sort_key length (rev extra_list))"

definition purge_one :: "string \<Rightarrow> world \<Rightarrow> world" where
  \<comment> \<open>the body of the loop of \<open>purge_extras\<close>\<close>
  "purge_one p w =
     (if \<not> os_path_exists (w_fs w) p then w
      else if os_path_isfile (w_fs w) p \<or> os_path_islink (w_fs w) p
      then (case os_remove p w of
              (None, w') \<Rightarrow> w'
            | (Some e, w') \<Rightarrow> emit (PurgeFailed p e) w')
      else (case inside_any_root p BACKUP_ROOTS of
              Inl e \<Rightarrow> emit (PurgeFailed p e) w
            | Inr inside_root \<Rightarrow> if inside_root then shutil_rmtree p w else w))"

definition purge_extras :: "string list \<Rightarrow> world \<Rightarrow> world" where
  "purge_extras extra_list w = fold purge_one (purge_order extra_list) w"

definition deleted_path :: "event \<Rightarrow> string option" where
  \<comment> \<open>the path a deletion call was made on\<close>
  "deleted_path e = (case e of Remove p \<Rightarrow> Some p | Rmtree p \<Rightarrow> Some p | _ \<Rightarrow> None)"

definition deletions :: "event list \<Rightarrow> string list" where
  \<comment> \<open>the deletion calls of a log, in the order they were made\<close>
  "deletions log = List.map_filter deleted_path log"

section \<open>Copy and CRL\<close>

definition abspath :: "string \<Rightarrow> string" where
  \<comment> \<open>\<open>os.path.abspath\<close>, the working directory being the root directory\<close>
  "abspath p = normpath (path_join ''/'' p)"

definition relpath :: "string \<Rightarrow> string \<Rightarrow> string" where
  \<comment> \<open>\<open>os.path.relpath(path, start)\<close> of posixpath\<close>
  "relpath path start =
     (let start_list = filter (\<lambda>x. x \<noteq> []) (split_on CHR ''/'' (abspath start));
          path_list = filter (\<lambda>x. x \<noteq> []) (split_on CHR ''/'' (abspath path));
          i = length (longest_common_prefix start_list path_list);
          rel_list = replicate (length start_list - i) ''..'' @ drop i path_list
      in if rel_list = [] then ''.'' else join_with ''/'' rel_list)"

fun copy_files :: "string \<Rightarrow> string \<Rightarrow> string list \<Rightarrow> world \<Rightarrow> world" where
  \<comment> \<open>\<open>for fn in files\<close>: a failed copy is printed and the loop goes on\<close>
  "copy_files base dest_base [] w = w"
| "copy_files base dest_base (fn # fns) w =
     (let s = path_join base fn; d = path_join dest_base fn
      in case shutil_copy2 s d w of
           (None, w') \<Rightarrow> copy_files base dest_base fns w'
         | (Some e, w') \<Rightarrow> copy_files base dest_base fns (emit (CopyFailed s d e) w'))"

fun make_subdirs :: "string \<Rightarrow> string list \<Rightarrow> world \<Rightarrow> error option \<times> world" where
  \<comment> \<open>\<open>for d in dirs: os.makedirs(join(dest_base, d), exist_ok=True)\<close>\<close>
  "make_subdirs dest_base [] w = (None, w)"
| "make_subdirs dest_base (d # ds) w =
     (case os_makedirs (path_join dest_base d) w of
        (Some e, w') \<Rightarrow> (Some e, w')
      | (None, w') \<Rightarrow> make_subdirs dest_base ds w')"

fun copy_walk :: "string \<Rightarrow> string \<Rightarrow> (string \<times> string list \<times> string list) list \<Rightarrow> world
                  \<Rightarrow> error option \<times> world" where
  \<comment> \<open>the loop over the walk of one staged root; an error of \<open>os.makedirs\<close> is not
      caught\<close>
  "copy_walk src_root root [] w = (None, w)"
| "copy_walk src_root root ((base, dirs, files) # rest) w =
     (let rel_base = relpath base src_root;
          dest_base = (if rel_base = ''.'' then root else path_join root rel_base)
      in case os_makedirs dest_base w of
           (Some e, w1) \<Rightarrow> (Some e, w1)
         | (None, w1) \<Rightarrow>
             (case make_subdirs dest_base dirs w1 of
                (Some e, w2) \<Rightarrow> (Some e, w2)
              | (None, w2) \<Rightarrow> copy_walk src_root root rest (copy_files base dest_base files w2)))"

fun copy_roots :: "string \<Rightarrow> string list \<Rightarrow> world \<Rightarrow> error option \<times> world" where
  \<comment> \<open>\<open>for root in manifest.get("roots", [])\<close>. The walk of a staged root lists it as it
      is when the copying of that root begins.\<close>
  "copy_roots staging_dir [] w = (None, w)"
| "copy_roots staging_dir (root # roots) w =
     (let rel = lstrip_slash root;
          src_root = path_join staging_dir rel
      in case lookup (w_fs w) src_root of
           Inl e \<Rightarrow> copy_roots staging_dir roots w
         | Inr n \<Rightarrow>
             (case copy_walk src_root root (os_walk (\<lambda>b ds. ds) src_root n) w of
                (Some e, w') \<Rightarrow> (Some e, w')
              | (None, w') \<Rightarrow> copy_roots staging_dir roots w'))"

definition copy_from_staging :: "string \<Rightarrow> manifest \<Rightarrow> world \<Rightarrow> error option \<times> world" where
  "copy_from_staging staging_dir m w = copy_roots staging_dir (m_roots m) w"

text \<open>
  What lies outside the program: the digest function, the decoding of an archive file
  into its members, the decoding of the manifest text, and the two external commands.
  \<open>easyrsa gen-crl\<close> either fails or writes \<open>pki/crl.pem\<close>; restarting the service does
  not touch the file system. A member of an archive is a directory or a regular file
  with its name as the archive gives it, which may be absolute or hold \<open>..\<close>. Members
  that are links or devices are left out, as this file system has no place for them:
  what is proved about archives is proved about archives of directories and regular
  files.
\<close>

datatype tar_member =
    TarDir string
  | TarFile string meta string

definition member_name :: "tar_member \<Rightarrow> string" where
  "member_name mem = (case mem of TarDir name \<Rightarrow> name | TarFile name m d \<Rightarrow> name)"

record env =
  sha256 :: "string \<Rightarrow> string"
  untar :: "string \<Rightarrow> tar_member list option"  \<comment> \<open>\<open>None\<close>: not a gzip tar archive\<close>
  json_load :: "string \<Rightarrow> manifest option"  \<comment> \<open>\<open>None\<close>: not JSON\<close>
  gen_crl :: "node \<Rightarrow> string option"  \<comment> \<open>the CRL made by the CA tool; \<open>None\<close>: it fails\<close>
  restart_service :: "node \<Rightarrow> string option"  \<comment> \<open>\<open>None\<close>: restarted; or the error text\<close>
  str_error :: "error \<Rightarrow> string"  \<comment> \<open>\<open>str(e)\<close>\<close>

definition regenerate_crl_if_possible :: "env \<Rightarrow> world \<Rightarrow> (bool \<times> string) \<times> world" where
  "regenerate_crl_if_possible env w =
     (if \<not> AUTO_REGEN_CRL then ((False, ''AUTO_REGEN_CRL disabled''), w)
      else
        let pki_dir = path_join EASYRSA_DIR ''pki'';
            index_path = path_join pki_dir ''index.txt'';
            ca_key = path_join (path_join pki_dir ''private'') ''ca.key'';
            easyrsa_script = path_join EASYRSA_DIR ''easyrsa''
        in if \<not> (os_path_exists (w_fs w) index_path \<and> os_path_exists (w_fs w) ca_key
                  \<and> os_path_exists (w_fs w) easyrsa_script)
           then ((False, ''PKI incomplete (no index/ca.key/easyrsa).''), w)
           else
             let w1 = emit RunGenCrl w;
                 crl_src = path_join pki_dir ''crl.pem'';
                 crl_dst = ''/etc/openvpn/crl.pem'';
                 failed = (\<lambda>e. (False, ''CRL regen failed: '' @ str_error env e))
             in case gen_crl env (w_fs w) of
                  None \<Rightarrow> (failed CalledProcessError, w1)
                | Some pem \<Rightarrow>
                    (case write_file crl_src
                            (\<lambda>old. \<lparr> st_mode = 384, st_uid = 0, st_gid = 0, readable = True \<rparr>)
                            pem (w_fs w) of
                       Inl e \<Rightarrow> (failed CalledProcessError, w1)
                     | Inr fs' \<Rightarrow>
                         (let w2 = w1\<lparr> w_fs := fs' \<rparr> in
                          if os_path_exists (w_fs w2) crl_src
                          then (case shutil_copy2 crl_src crl_dst w2 of
                                  (Some e, w3) \<Rightarrow> (failed e, w3)
                                | (None, w3) \<Rightarrow>
                                    (case os_chmod crl_dst 420 w3 of
                                       (Some e, w4) \<Rightarrow> (failed e, w4)
                                     | (None, w4) \<Rightarrow> ((True, ''CRL regenerated.''), w4)))
                          else ((True, ''CRL regenerated.''), w2))))"

section \<open>Restore\<close>

record gmtime =
  tm_year :: nat
  tm_mon :: nat
  tm_mday :: nat
  tm_hour :: nat
  tm_min :: nat
  tm_sec :: nat

definition digit :: "nat \<Rightarrow> char" where
  "digit n = ''0123456789'' ! (n mod 10)"

definition pad2 :: "nat \<Rightarrow> string" where
  "pad2 n = [digit (n div 10), digit n]"

definition pad4 :: "nat \<Rightarrow> string" where
  "pad4 n = [digit (n div 1000), digit (n div 100), digit (n div 10), digit n]"

definition now_ts :: "gmtime \<Rightarrow> string" where
  \<comment> \<open>\<open>_now_ts()\<close>: \<open>time.strftime("%Y%m%d_%H%M%S", time.gmtime())\<close>, the time of the call
      being the argument\<close>
  "now_ts g =
     pad4 (tm_year g) @ pad2 (tm_mon g) @ pad2 (tm_mday g) @ ''_'' @
     pad2 (tm_hour g) @ pad2 (tm_min g) @ pad2 (tm_sec g)"

definition rstrip_slash :: "string \<Rightarrow> string" where
  \<comment> \<open>\<open>s.rstrip("/")\<close>\<close>
  "rstrip_slash s = rev (dropWhile (\<lambda>c. c = CHR ''/'') (rev s))"

definition dirname :: "string \<Rightarrow> string" where
  \<comment> \<open>\<open>os.path.dirname\<close> of posixpath: up to the last slash, without trailing slashes
      unless there is nothing else\<close>
  "dirname p =
     (let head = take (length p - length (basename p)) p
      in if head \<noteq> [] \<and> head \<noteq> replicate (length head) CHR ''/'' then rstrip_slash head
         else head)"

definition os_mkdir :: "string \<Rightarrow> node \<Rightarrow> error + node" where
  \<comment> \<open>\<open>os.mkdir(p)\<close> for a path without a trailing slash: one new directory, in a
      directory that exists\<close>
  "os_mkdir p fs =
     (if p = [] then Inl FileNotFoundError
      else
        let comps = split_on CHR ''/'' p; name = last comps in
        if name = [] \<or> name = ''.'' \<or> name = ''..''
        then (case lookup fs p of Inl e \<Rightarrow> Inl e | Inr n \<Rightarrow> Inl FileExistsError)
        else
          case canon_from fs [] (butlast comps) of
            Inl e \<Rightarrow> Inl e
          | Inr cp \<Rightarrow>
              (case get fs cp of
                 Some (Dir es) \<Rightarrow>
                   (case get fs (cp @ [name]) of
                      None \<Rightarrow> Inr (put_at (cp @ [name]) (Dir []) fs)
                    | Some n \<Rightarrow> Inl FileExistsError)
               | _ \<Rightarrow> Inl NotADirectoryError))"

definition makedirs_plain :: "string \<Rightarrow> node \<Rightarrow> error option \<times> node" where
  \<comment> \<open>\<open>os.makedirs(p)\<close> without \<open>exist_ok\<close>, as it behaves on a path that does not
      exist: the directories are made from the left, and a path that ends in \<open>..\<close>
      fails at its last step\<close>
  "makedirs_plain p fs =
     (if p = [] then (Some FileNotFoundError, fs)
      else case makedirs_from fs [] (split_on CHR ''/'' p) of
             (Some e, fs') \<Rightarrow> (Some e, fs')
           | (None, fs') \<Rightarrow>
               if last (split_on CHR ''/'' p) = ''..'' then (Some FileExistsError, fs')
               else (None, fs'))"

definition extract_member :: "string \<Rightarrow> tar_member \<Rightarrow> node \<Rightarrow> error option \<times> node" where
  \<comment> \<open>one member of \<open>tar.extractall(extract_to)\<close>, called without a filter: the target is
      \<open>os.path.join(extract_to, name)\<close> without trailing slashes, whatever the name is,
      and the file system resolves it; missing directories above the target are made
      first; \<open>FileExistsError\<close> from the \<open>mkdir\<close> of a directory member is passed over\<close>
  "extract_member extract_to mem fs =
     (let targetpath = rstrip_slash (path_join extract_to (member_name mem));
          upperdirs = dirname targetpath
      in case (if upperdirs \<noteq> [] \<and> \<not> os_path_exists fs upperdirs
               then makedirs_plain upperdirs fs else (None, fs)) of
           (Some e, fs1) \<Rightarrow> (Some e, fs1)
         | (None, fs1) \<Rightarrow>
             (case mem of
                TarDir name \<Rightarrow>
                  (case os_mkdir targetpath fs1 of
                     Inl e \<Rightarrow> if e = FileExistsError then (None, fs1) else (Some e, fs1)
                   | Inr fs2 \<Rightarrow> (None, fs2))
              | TarFile name m d \<Rightarrow>
                  (case write_file targetpath (\<lambda>old. m) d fs1 of
                     Inl e \<Rightarrow> (Some e, fs1)
                   | Inr fs2 \<Rightarrow> (None, fs2))))"

fun extract_members :: "string \<Rightarrow> tar_member list \<Rightarrow> node \<Rightarrow> error option \<times> node" where
  \<comment> \<open>the members in the order of the archive; what was extracted before an error stays\<close>
  "extract_members extract_to [] fs = (None, fs)"
| "extract_members extract_to (mem # mems) fs =
     (case extract_member extract_to mem fs of
        (Some e, fs') \<Rightarrow> (Some e, fs')
      | (None, fs') \<Rightarrow> extract_members extract_to mems fs')"

definition load_manifest_from_archive :: "env \<Rightarrow> string \<Rightarrow> string \<Rightarrow> world
                                           \<Rightarrow> (error + manifest) \<times> world" where
  "load_manifest_from_archive env archive_path extract_to w =
     (case read_file (w_fs w) archive_path of
        Inl e \<Rightarrow> (Inl e, w)
      | Inr bytes \<Rightarrow>
          (case untar env bytes of
             None \<Rightarrow> (Inl ReadError, w)
           | Some members \<Rightarrow>
               (let w1 = emit (ExtractAll archive_path extract_to) w in
                case extract_members extract_to members (w_fs w) of
                  (Some e, fs') \<Rightarrow> (Inl e, w1\<lparr> w_fs := fs' \<rparr>)
                | (None, fs') \<Rightarrow>
                    (let w2 = w1\<lparr> w_fs := fs' \<rparr>;
                         manifest_path = path_join extract_to MANIFEST_NAME
                     in if \<not> os_path_exists fs' manifest_path then (Inl RuntimeError, w2)
                        else (case read_file fs' manifest_path of
                                Inl e \<Rightarrow> (Inl e, w2)
                              | Inr txt \<Rightarrow>
                                  (case json_load env txt of
                                     None \<Rightarrow> (Inl JSONDecodeError, w2)
                                   | Some m \<Rightarrow> (Inr m, w2)))))))"

record report =
  r_archive :: string
  r_dry_run :: bool
  r_diff :: diff_report
  r_purge_mode :: string
  r_crl_action :: "string option"
  r_service_restart :: "string option"
  r_errors :: "string list"

definition restore_body :: "env \<Rightarrow> string \<Rightarrow> string \<Rightarrow> bool \<Rightarrow> world \<Rightarrow> (error + report) \<times> world" where
  \<comment> \<open>the \<open>try\<close> block of \<open>apply_restore\<close>\<close>
  "restore_body env staging_dir archive_path dry_run w =
     (case load_manifest_from_archive env archive_path staging_dir w of
        (Inl e, w1) \<Rightarrow> (Inl e, w1)
      | (Inr m, w1) \<Rightarrow>
          (let diff = compute_diff (sha256 env) (still (w_fs w1)) 0 m;
               rep = \<lparr> r_archive = archive_path,
                       r_dry_run = dry_run,
                       r_diff = diff,
                       r_purge_mode = (if STRICT_PURGE then ''strict'' else ''none''),
                       r_crl_action = None,
                       r_service_restart = None,
                       r_errors = [] \<rparr>
           in if dry_run then (Inr rep, w1)
              else
                let w2 = (if STRICT_PURGE \<and> d_extra diff \<noteq> [] then purge_extras (d_extra diff) w1
                          else w1)
                in case copy_from_staging staging_dir m w2 of
                     (Some e, w3) \<Rightarrow> (Inl e, w3)
                   | (None, w3) \<Rightarrow>
                       (case regenerate_crl_if_possible env w3 of
                          ((success, msg), w4) \<Rightarrow>
                            (let rep1 = rep\<lparr> r_crl_action := Some msg \<rparr>;
                                 w5 = emit RunRestart w4
                             in case restart_service env (w_fs w4) of
                                  None \<Rightarrow> (Inr (rep1\<lparr> r_service_restart := Some ''OK'' \<rparr>), w5)
                                | Some err \<Rightarrow>
                                    (Inr (rep1\<lparr> r_service_restart := Some (''Failed: '' @ err),
                                                r_errors := r_errors rep1 @ [err] \<rparr>), w5)))))"

definition apply_restore :: "env \<Rightarrow> gmtime \<Rightarrow> string \<Rightarrow> bool option \<Rightarrow> world
                              \<Rightarrow> (error + report) \<times> world" where
  \<comment> \<open>\<open>dry_run_arg = None\<close> is a call without the \<open>dry_run\<close> argument. The staging
      directory is made before the \<open>try\<close>; the \<open>finally\<close> clause runs after the block
      however it ends.\<close>
  "apply_restore env now archive_path dry_run_arg w =
     (let dry_run = (case dry_run_arg of None \<Rightarrow> True | Some b \<Rightarrow> b);
          ts = now_ts now;
          staging_dir = TMP_STAGING_PREFIX @ ts
      in case os_makedirs staging_dir w of
           (Some e, w1) \<Rightarrow> (Inl e, w1)
         | (None, w1) \<Rightarrow>
             (case restore_body env staging_dir archive_path dry_run w1 of
                (res, w2) \<Rightarrow> (res, shutil_rmtree staging_dir w2)))"

section \<open>Notions used in the proofs\<close>


definition dir_at :: "node \<Rightarrow> string list \<Rightarrow> bool" where
  \<comment> \<open>there is a directory at this list of names\<close>
  "dir_at fs p = (case get fs p of Some (Dir es) \<Rightarrow> True | _ \<Rightarrow> False)"











definition walk_paths :: "(string \<Rightarrow> string list \<Rightarrow> string list) \<Rightarrow> string \<Rightarrow> node \<Rightarrow> string list" where
  \<comment> \<open>the paths of all entries that a walk lists as files\<close>
  "walk_paths prune tp n =
     concat (map (\<lambda>(base, dirs, files). map (path_join base) files) (os_walk prune tp n))"

section \<open>Example file systems\<close>

text \<open>
  Concrete inputs for the closed theorems below: a digest function that stands in for
  SHA-256, small trees, and an environment with three archives.
\<close>

definition toy_digest :: "string \<Rightarrow> string" where
  "toy_digest d = ''sha:'' @ d"

definition plain :: meta where
  "plain = \<lparr> st_mode = 420, st_uid = 0, st_gid = 0, readable = True \<rparr>"

definition locked :: meta where
  "locked = \<lparr> st_mode = 0, st_uid = 0, st_gid = 0, readable = False \<rparr>"

definition data_fs :: node where
  \<comment> \<open>\<open>/data/a.txt\<close>, \<open>/data/sub/c\<close> and an empty \<open>/tmp\<close>\<close>
  "data_fs =
     Dir [(''data'', Dir [(''a.txt'', File plain ''hello''),
                          (''sub'', Dir [(''c'', File plain ''cc'')])]),
          (''tmp'', Dir [])]"

definition data_fs_gone :: node where
  \<comment> \<open>\<open>data_fs\<close> after \<open>/data/a.txt\<close> was removed\<close>
  "data_fs_gone =
     Dir [(''data'', Dir [(''sub'', Dir [(''c'', File plain ''cc'')])]),
          (''tmp'', Dir [])]"

definition data_fs_locked :: node where
  \<comment> \<open>\<open>data_fs\<close> with \<open>/data/a.txt\<close> made unreadable\<close>
  "data_fs_locked =
     Dir [(''data'', Dir [(''a.txt'', File locked ''hello''),
                          (''sub'', Dir [(''c'', File plain ''cc'')])]),
          (''tmp'', Dir [])]"

definition nest_fs :: node where
  \<comment> \<open>\<open>/root/A/B/C/file\<close>\<close>
  "nest_fs =
     Dir [(''root'', Dir [(''A'', Dir [(''B'', Dir [(''C'', Dir [(''file'', File plain ''x'')])])])])]"

definition toy_manifest :: manifest where
  \<comment> \<open>the manifest of \<open>/data\<close> in \<open>data_fs\<close>\<close>
  "toy_manifest =
     \<lparr> m_version = 1, m_created_at = ''now'', m_roots = [''/data''],
       m_files = [\<lparr> f_path = ''/data/a.txt'', f_sha256 = ''sha:hello'', f_size = 5,
                    f_mode = ''0o644'', f_uid = 0, f_gid = 0 \<rparr>,
                  \<lparr> f_path = ''/data/sub/c'', f_sha256 = ''sha:cc'', f_size = 2,
                    f_mode = ''0o644'', f_uid = 0, f_gid = 0 \<rparr>],
       m_openvpn_pki = \<lparr> pki_root = None, index_sha256 = None, pki_serial = None,
                         clients = [] \<rparr> \<rparr>"

definition tmp_manifest :: manifest where
  \<comment> \<open>a manifest with the root \<open>/tmp\<close> and no files\<close>
  "tmp_manifest =
     \<lparr> m_version = 1, m_created_at = ''now'', m_roots = [''/tmp''],
       m_files = [],
       m_openvpn_pki = \<lparr> pki_root = None, index_sha256 = None, pki_serial = None,
                         clients = [] \<rparr> \<rparr>"

definition toy_env :: env where
  \<comment> \<open>an archive file with the content \<open>leak\<close> holds \<open>manifest.json\<close> and a member named
      \<open>../../data/a.txt\<close>; every other archive file holds \<open>manifest.json\<close>, \<open>data/a.txt\<close>
      and \<open>data/sub/c\<close>. The manifest text \<open>tmp\<close> is \<open>tmp_manifest\<close>, every other one is
      \<open>toy_manifest\<close>. The CA tool fails, the restart succeeds.\<close>
  "toy_env =
     \<lparr> sha256 = toy_digest,
       untar = (\<lambda>bytes. if bytes = ''leak''
                         then Some [TarFile ''manifest.json'' plain ''{}'',
                                    TarFile ''../../data/a.txt'' plain ''EVIL'']
                         else if bytes = ''stale''
                         then Some [TarFile ''manifest.json'' plain ''tmp'']
                         else Some [TarFile ''manifest.json'' plain ''{}'',
                                    TarDir ''data'',
                                    TarFile ''data/a.txt'' plain ''hello'',
                                    TarFile ''data/sub/c'' plain ''cc'']),
       json_load = (\<lambda>txt. if txt = ''tmp'' then Some tmp_manifest else Some toy_manifest),
       gen_crl = (\<lambda>fs. None),
       restart_service = (\<lambda>fs. None),
       str_error = (\<lambda>e. ''error'') \<rparr>"


definition leak_fs :: node where
  \<comment> \<open>\<open>/data/a.txt\<close> and an archive \<open>/b.tar.gz\<close> with the content \<open>leak\<close>\<close>
  "leak_fs =
     Dir [(''data'', Dir [(''a.txt'', File plain ''hello'')]),
          (''b.tar.gz'', File plain ''leak''),
          (''tmp'', Dir [])]"


definition noon :: gmtime where
  "noon = \<lparr> tm_year = 2024, tm_mon = 5, tm_mday = 17, tm_hour = 12, tm_min = 0, tm_sec = 0 \<rparr>"

section \<open>Properties\<close>

subsection \<open>The CA index parser\<close>

text \<open>
  Claim C5: the line \<open>V  251231000000Z    01  unused  /CN=alice\<close> yields the client
  record with the serial \<open>01\<close>. The code records the fourth run of characters that are
  not white space. The line of a revoked certificate has a revocation date in its third
  column, and the fourth run is the serial. The line of a valid certificate has an
  empty third column, which \<open>split()\<close> closes up: the serial is the third run, and what
  the code records is the next column, the file name. So the line of the claim yields
  the serial \<open>unused\<close>, and a valid line as OpenSSL writes it, with one tab between the
  columns, yields the serial \<open>unknown\<close>.
\<close>

theorem index_serial_of_valid_line:
  "parse_index_line ''V  251231000000Z    01  unused  /CN=alice''
     = Some \<lparr> c_cn = ''alice'', c_status = ''V'', c_serial = ''unused'',
               c_expiry_raw = ''251231000000Z'' \<rparr>
   \<and> parse_index_line (''V'' @ [CHR 0x09] @ ''251231000000Z'' @ [CHR 0x09, CHR 0x09] @ ''01''
                         @ [CHR 0x09] @ ''unknown'' @ [CHR 0x09] @ ''/CN=alice'')
     = Some \<lparr> c_cn = ''alice'', c_status = ''V'', c_serial = ''unknown'',
               c_expiry_raw = ''251231000000Z'' \<rparr>
   \<and> parse_index_line (''R'' @ [CHR 0x09] @ ''251231000000Z'' @ [CHR 0x09] @ ''240101000000Z''
                         @ [CHR 0x09] @ ''02'' @ [CHR 0x09] @ ''unknown'' @ [CHR 0x09] @ ''/CN=bob'')
     = Some \<lparr> c_cn = ''bob'', c_status = ''R'', c_serial = ''02'',
               c_expiry_raw = ''251231000000Z'' \<rparr>"
  by (simp add: parse_index_line_def strip_def py_split_def is_space_def
      subject_cn_def split_on_def)

subsection \<open>The diff engine\<close>


lemma set_indexed_filter:
  "set (map snd (filter (\<lambda>(i, p). P i p) (enumerate 0 xs))) = {xs ! i | i. i < length xs \<and> P i (xs ! i)}"
  by (force simp: in_set_enumerate_eq image_iff)



lemma set_common_paths:
  "set (common_paths tm t m) = f_path ` set (m_files m) \<inter> set (walk_roots tm t (m_roots m))"
  by (simp add: common_paths_def)


lemma set_d_changed:
  "set (d_changed (compute_diff H tm t m))
     = {common_paths tm t m ! i | i. i < length (common_paths tm t m) \<and>
          digest_changed H (tm (t + length (m_roots m) + i)) (recorded_of (m_files m))
            (common_paths tm t m ! i)}"
proof -
  have "d_changed (compute_diff H tm t m)
      = sort (map snd (filter (\<lambda>(i, p). digest_changed H (tm (t + length (m_roots m) + i)) (recorded_of (m_files m)) p)
                              (enumerate 0 (common_paths tm t m))))"
    by (simp add: compute_diff_def Let_def)
  then show ?thesis
    by (simp only: set_sort set_indexed_filter)
qed

text \<open>
  Claim C7: a path that is both recorded and current is visited by the comparison loop, and
  if the recomputation of its digest raises any error there, the path is in \<open>changed\<close>;
  \<open>compute_diff\<close> has no failing outcome at all.
\<close>

theorem digest_failure_is_change:
  assumes "p \<in> f_path ` set (m_files m)" and "p \<in> set (walk_roots tm t (m_roots m))"
  shows "\<exists>i < length (common_paths tm t m). common_paths tm t m ! i = p \<and>
           (\<forall>e. sha256_file H (tm (t + length (m_roots m) + i)) p = Inl e
                 \<longrightarrow> p \<in> set (d_changed (compute_diff H tm t m)))"
proof -
  from assms have "p \<in> set (common_paths tm t m)"
    by (simp add: set_common_paths)
  then obtain i where i: "i < length (common_paths tm t m)" "common_paths tm t m ! i = p"
    by (auto simp: in_set_conv_nth)
  have "p \<in> set (d_changed (compute_diff H tm t m))"
    if "sha256_file H (tm (t + length (m_roots m) + i)) p = Inl e" for e
  proof -
    from that have "digest_changed H (tm (t + length (m_roots m) + i)) (recorded_of (m_files m)) p"
      by (simp add: digest_changed_def)
    with i show ?thesis
      unfolding set_d_changed by blast
  qed
  with i show ?thesis
    by blast
qed

theorem digest_failure_is_change_witness:
  "''/data/a.txt'' \<in> f_path ` set [\<lparr> f_path = ''/data/a.txt'', f_sha256 = ''sha:hello'', f_size = 5,
                                        f_mode = ''0o644'', f_uid = 0, f_gid = 0 \<rparr>]
   \<and> ''/data/a.txt'' \<in> set (walk_roots (still data_fs_locked) 0 [''/data''])
   \<and> sha256_file toy_digest data_fs_locked ''/data/a.txt'' = Inl PermissionError
   \<and> ''/data/a.txt'' \<in> set (d_changed (compute_diff toy_digest (still data_fs_locked) 0
          \<lparr> m_version = 1, m_created_at = ''now'', m_roots = [''/data''],
             m_files = [\<lparr> f_path = ''/data/a.txt'', f_sha256 = ''sha:hello'', f_size = 5,
                          f_mode = ''0o644'', f_uid = 0, f_gid = 0 \<rparr>],
             m_openvpn_pki = \<lparr> pki_root = None, index_sha256 = None, pki_serial = None,
                               clients = [] \<rparr> \<rparr>))"
proof -
  let ?f = "\<lparr> f_path = ''/data/a.txt'', f_sha256 = ''sha:hello'', f_size = 5,
              f_mode = ''0o644'', f_uid = 0, f_gid = 0 \<rparr>"
  let ?m = "\<lparr> m_version = 1, m_created_at = ''now'', m_roots = [''/data''],
             m_files = [?f],
             m_openvpn_pki = \<lparr> pki_root = None, index_sha256 = None, pki_serial = None,
                               clients = [] \<rparr> \<rparr>"
  have a: "''/data/a.txt'' \<in> f_path ` set (m_files ?m)"
    by simp
  have w: "walk_roots (still data_fs_locked) 0 [''/data''] = [''/data/a.txt'', ''/data/sub/c'']"
    by code_simp
  have b: "''/data/a.txt'' \<in> set (walk_roots (still data_fs_locked) 0 (m_roots ?m))"
    using w by simp
  have c: "sha256_file toy_digest fs ''/data/a.txt'' = Inl PermissionError" if "fs = data_fs_locked" for fs
    unfolding that by code_simp
  from digest_failure_is_change [of "''/data/a.txt''" ?m "still data_fs_locked" 0 toy_digest, OF a b]
  have "''/data/a.txt'' \<in> set (d_changed (compute_diff toy_digest (still data_fs_locked) 0 ?m))"
    using c by (auto simp: still_def)
  with a b c show ?thesis
    by simp
qed

subsection \<open>The manifest builder\<close>








lemma walk_paths_other: "\<not> is_dir_node n \<Longrightarrow> walk_paths prune tp n = []"
  by (cases n) (simp_all add: walk_paths_def is_dir_node_def)









text \<open>
  Claim C6 at a failing input: \<open>/data/a.txt\<close> is listed by the traversal (observation 0)
  and still there for \<open>lstat\<close> (observation 1), and it is gone when it is opened for
  hashing (observation 2): the build fails with \<open>FileNotFoundError\<close>. When the file is
  already gone for \<open>lstat\<close>, it is skipped and the other file is recorded.
\<close>

theorem read_race_fails_build:
  "build_manifest toy_digest ''now'' (switch_at 2 data_fs data_fs_gone) 0 [''/data'']
     = Inl FileNotFoundError
   \<and> map_sum id (\<lambda>m. map f_path (m_files m))
        (build_manifest toy_digest ''now'' (switch_at 1 data_fs data_fs_gone) 0 [''/data''])
     = Inr [''/data/sub/c'']"
  by code_simp

text \<open>
  Claim C2 at a failing input: the root \<open>/data/.\<close> is traversed as \<open>/data\<close> by
  the builder, which normalises it, and as \<open>/data/.\<close> by the diff, which reads the
  root as the manifest keeps it; on an unchanged file system every file is then both
  extra and missing.
\<close>

theorem unnormalised_root_diff:
  "map_sum id (compute_diff toy_digest (still data_fs) 0)
     (build_manifest toy_digest ''now'' (still data_fs) 0 [''/data/.''])
   = Inr \<lparr> d_extra = [''/data/./a.txt'', ''/data/./sub/c''],
           d_missing = [''/data/a.txt'', ''/data/sub/c''],
           d_changed = [] \<rparr>"
  by code_simp

lemma iter_files_isfile: "p \<in> set (iter_files fs r) \<Longrightarrow> os_path_isfile fs p"
  by (auto simp: iter_files_def split: sum.splits)

lemma isfile_lstat: "os_path_isfile fs p \<Longrightarrow> \<exists>st. os_lstat fs p = Inr st"
  by (auto simp: os_path_isfile_def os_lstat_def split: sum.splits)

lemma build_files_still:
  "\<forall>p \<in> set fps. os_path_isfile fs p \<Longrightarrow> build_files H (still fs) t fps = Inr (recs, t')
   \<Longrightarrow> map f_path recs = fps \<and> (\<forall>f \<in> set recs. sha256_file H fs (f_path f) = Inr (f_sha256 f))"
proof (induction fps arbitrary: t recs t')
  case Nil
  then show ?case by simp
next
  case (Cons fp fps)
  from Cons.prems(1) obtain st where st: "os_lstat fs fp = Inr st"
    using isfile_lstat by fastforce
  from Cons.prems(2) st obtain h recs1 where
    h: "sha256_file H fs fp = Inr h" and
    r: "build_files H (still fs) (Suc (Suc t)) fps = Inr (recs1, t')" and
    e: "recs = \<lparr> f_path = fp, f_sha256 = h, f_size = s_size st,
                  f_mode = oct (S_IMODE (s_mode st)), f_uid = s_uid st, f_gid = s_gid st \<rparr> # recs1"
    by (auto simp: still_def split: sum.splits prod.splits)
  from Cons.IH [OF _ r] Cons.prems(1) have "map f_path recs1 = fps"
    and "\<forall>f \<in> set recs1. sha256_file H fs (f_path f) = Inr (f_sha256 f)"
    by auto
  with h e show ?case
    by simp
qed

lemma build_roots_still:
  "build_roots H (still fs) t roots = Inr (recs, t')
   \<Longrightarrow> map f_path recs = concat (map (\<lambda>r. iter_files fs (normpath r)) roots)
       \<and> (\<forall>f \<in> set recs. sha256_file H fs (f_path f) = Inr (f_sha256 f))"
proof (induction roots arbitrary: t recs t')
  case Nil
  then show ?case by simp
next
  case (Cons r rs)
  from Cons.prems obtain recs1 t1 recs2 where
    1: "build_files H (still fs) (Suc t) (iter_files fs (normpath r)) = Inr (recs1, t1)" and
    2: "build_roots H (still fs) t1 rs = Inr (recs2, t')" and
    3: "recs = recs1 @ recs2"
    by (auto simp: Let_def still_def split: sum.splits prod.splits)
  have "\<forall>p \<in> set (iter_files fs (normpath r)). os_path_isfile fs p"
    using iter_files_isfile by blast
  from build_files_still [OF this 1] Cons.IH [OF 2] 3 show ?case
    by auto
qed

lemma recorded_of_fold:
  "fold (\<lambda>f r. r(f_path f \<mapsto> f)) files r0 p = Some g
   \<Longrightarrow> (g \<in> set files \<and> f_path g = p) \<or> r0 p = Some g"
  by (induction files arbitrary: r0) (fastforce split: if_splits)+

lemma recorded_of_Some:
  "recorded_of files p = Some g \<Longrightarrow> g \<in> set files \<and> f_path g = p"
  using recorded_of_fold [of files Map.empty p g] by (simp add: recorded_of_def)

lemma recorded_of_dom_fold:
  "p \<in> f_path ` set files \<or> r0 p \<noteq> None
   \<Longrightarrow> fold (\<lambda>f r. r(f_path f \<mapsto> f)) files r0 p \<noteq> None"
  by (induction files arbitrary: r0) auto

lemma recorded_of_dom:
  "p \<in> f_path ` set files \<Longrightarrow> \<exists>g. recorded_of files p = Some g"
  using recorded_of_dom_fold [of p files Map.empty] by (auto simp: recorded_of_def)

lemma map_enumerate_snd: "map (\<lambda>(i, r). g r) (enumerate n xs) = map g xs"
  by (induction xs arbitrary: n) simp_all

lemma walk_roots_still:
  "walk_roots (still fs) t roots = concat (map (iter_files fs) roots)"
  by (simp add: walk_roots_def still_def map_enumerate_snd)

text \<open>
  With roots that are already normalised the two traversals agree, and the diff of a
  manifest just built on an unchanged file system is empty.
\<close>

lemma diff_of_fresh_manifest:
  assumes norm: "\<forall>r \<in> set roots. normpath r = r"
    and build: "build_manifest H now (still fs) t roots = Inr m"
  shows "compute_diff H (still fs) u m = \<lparr> d_extra = [], d_missing = [], d_changed = [] \<rparr>"
proof -
  from build obtain t' where br: "build_roots H (still fs) t roots = Inr (m_files m, t')"
    and roots: "m_roots m = roots"
    by (auto simp: build_manifest_def split: sum.splits prod.splits)
  from norm have "map (\<lambda>r. iter_files fs (normpath r)) roots = map (iter_files fs) roots"
    by simp
  with build_roots_still [OF br]
  have paths: "map f_path (m_files m) = walk_roots (still fs) u (m_roots m)"
    and sha: "\<forall>f \<in> set (m_files m). sha256_file H fs (f_path f) = Inr (f_sha256 f)"
    by (simp_all add: walk_roots_still roots)
  have "\<not> digest_changed H fs (recorded_of (m_files m)) p" if "p \<in> set (common_paths (still fs) u m)" for p
  proof -
    from that obtain g where g: "recorded_of (m_files m) p = Some g"
      using recorded_of_dom [of p "m_files m"] by (auto simp: set_common_paths)
    from recorded_of_Some [OF g] sha have "sha256_file H fs p = Inr (f_sha256 g)"
      by auto
    with g show ?thesis
      by (simp add: digest_changed_def)
  qed
  then have "filter (\<lambda>(i, p). digest_changed H (still fs (u + length (m_roots m) + i)) (recorded_of (m_files m)) p)
                (enumerate 0 (common_paths (still fs) u m)) = []"
    by (auto simp: filter_empty_conv still_def in_set_enumerate_eq)
  moreover have "set (walk_roots (still fs) u (m_roots m)) - set (map f_path (m_files m)) = {}"
    "set (map f_path (m_files m)) - set (walk_roots (still fs) u (m_roots m)) = {}"
    using paths by simp_all
  ultimately show ?thesis
    by (simp add: compute_diff_def Let_def)
qed

subsection \<open>Purge\<close>

lemma deletions_append: "deletions (xs @ ys) = deletions xs @ deletions ys"
  by (simp add: deletions_def map_filter_def)

lemma deletions_Nil: "deletions [] = []"
  by (simp add: deletions_def map_filter_def)

lemma deletions_Cons:
  "deletions (e # es) = (case deleted_path e of None \<Rightarrow> deletions es | Some p \<Rightarrow> p # deletions es)"
  by (simp add: deletions_def map_filter_def split: option.splits)

lemma deleted_path_simps:
  "deleted_path (Remove p) = Some p"
  "deleted_path (Rmtree p) = Some p"
  "deleted_path (PurgeFailed p e) = None"
  by (simp_all add: deleted_path_def)

lemmas deletions_simps = deletions_Nil deletions_Cons deleted_path_simps

lemma os_remove_log: "w_log (snd (os_remove p w)) = w_log w @ [Remove p]"
  by (simp add: os_remove_def emit_def Let_def split: sum.splits option.splits node.splits)

lemma shutil_rmtree_log: "w_log (shutil_rmtree p w) = w_log w @ [Rmtree p]"
  by (simp add: shutil_rmtree_def emit_def Let_def split: sum.splits option.splits node.splits)

lemma purge_one_deletions:
  "deletions (w_log (purge_one p w)) = deletions (w_log w)
   \<or> deletions (w_log (purge_one p w)) = deletions (w_log w) @ [p]"
proof -
  have rm: "deletions (w_log (case os_remove p w of (None, w') \<Rightarrow> w'
                                | (Some e, w') \<Rightarrow> emit (PurgeFailed p e) w'))
      = deletions (w_log w) @ [p]"
    using os_remove_log [of p w]
    by (cases "os_remove p w") (auto simp: emit_def deletions_append deletions_simps split: option.splits)
  have rt: "deletions (w_log (shutil_rmtree p w)) = deletions (w_log w) @ [p]"
    by (simp add: shutil_rmtree_log deletions_append deletions_simps)
  show ?thesis
    unfolding purge_one_def
    by (simp add: rm rt emit_def deletions_append deletions_simps split: sum.splits)
qed

lemma purge_loop_deletions:
  "\<exists>ds. deletions (w_log (fold purge_one ps w)) = deletions (w_log w) @ ds \<and> subseq ds ps"
proof (induction ps arbitrary: w)
  case Nil
  then show ?case by simp
next
  case (Cons p ps)
  from Cons.IH [of "purge_one p w"] obtain ds where
    ds: "deletions (w_log (fold purge_one ps (purge_one p w))) = deletions (w_log (purge_one p w)) @ ds"
    and sub: "subseq ds ps"
    by blast
  from purge_one_deletions [of p w] show ?case
  proof
    assume "deletions (w_log (purge_one p w)) = deletions (w_log w)"
    with ds sub show ?thesis
      by (auto intro: list_emb_Cons)
  next
    assume "deletions (w_log (purge_one p w)) = deletions (w_log w) @ [p]"
    with ds sub show ?thesis
      by auto
  qed
qed

lemma sorted_wrt_subseq: "subseq xs ys \<Longrightarrow> sorted_wrt P ys \<Longrightarrow> sorted_wrt P xs"
proof (induction rule: list_emb.induct)
  case (list_emb_Nil ys)
  then show ?case by simp
next
  case (list_emb_Cons xs ys y)
  then show ?case by simp
next
  case (list_emb_Cons2 x y xs ys)
  then have "set xs \<subseteq> set ys"
    by (auto dest: list_emb_set)
  with list_emb_Cons2 show ?case
    by auto
qed

lemma purge_order_longest_first: "sorted_wrt (\<lambda>a b. length b \<le> length a) (purge_order xs)"
proof -
  have "sorted (map length (sort_key length (rev xs)))"
    by (rule sorted_sort_key)
  then have "sorted_wrt (\<lambda>a b. length a \<le> length b) (sort_key length (rev xs))"
    by (simp add: sorted_map)
  then show ?thesis
    by (simp add: purge_order_def sorted_wrt_rev)
qed

lemma mset_purge_order: "mset (purge_order xs) = mset xs"
  by (simp add: purge_order_def)

text \<open>
  Claim C3: \<open>purge_extras\<close> visits the paths it is given longest first (a
  rearrangement of the list, paths of equal length in the order given), and its deletion
  calls (\<open>os.remove\<close>, \<open>shutil.rmtree\<close>) are made in that order: a later call is never on
  a longer path than an earlier one, and never on a path that an earlier one properly
  extends. The path of a directory is a proper prefix of the paths below it, so what lies
  below a directory is deleted before the directory.
\<close>

theorem purge_longest_first:
  "mset (purge_order xs) = mset xs
   \<and> subseq (deletions (w_log (purge_extras xs \<lparr> w_fs = fs, w_log = [] \<rparr>))) (purge_order xs)
   \<and> (\<forall>i j. i < j \<and> j < length (deletions (w_log (purge_extras xs \<lparr> w_fs = fs, w_log = [] \<rparr>)))
        \<longrightarrow> length (deletions (w_log (purge_extras xs \<lparr> w_fs = fs, w_log = [] \<rparr>)) ! j)
              \<le> length (deletions (w_log (purge_extras xs \<lparr> w_fs = fs, w_log = [] \<rparr>)) ! i)
          \<and> \<not> strict_prefix (deletions (w_log (purge_extras xs \<lparr> w_fs = fs, w_log = [] \<rparr>)) ! i)
                              (deletions (w_log (purge_extras xs \<lparr> w_fs = fs, w_log = [] \<rparr>)) ! j))"
proof -
  let ?ds = "deletions (w_log (purge_extras xs \<lparr> w_fs = fs, w_log = [] \<rparr>))"
  from purge_loop_deletions [of "purge_order xs" "\<lparr> w_fs = fs, w_log = [] \<rparr>"]
  have sub: "subseq ?ds (purge_order xs)"
    by (simp add: purge_extras_def deletions_def map_filter_def)
  have srt: "sorted_wrt (\<lambda>a b. length b \<le> length a) ?ds"
    using sub purge_order_longest_first by (rule sorted_wrt_subseq)
  have "length (?ds ! j) \<le> length (?ds ! i) \<and> \<not> strict_prefix (?ds ! i) (?ds ! j)"
    if "i < j" "j < length ?ds" for i j
  proof -
    from sorted_wrt_nth_less [OF srt that] have le: "length (?ds ! j) \<le> length (?ds ! i)" .
    have "length a < length b" if "strict_prefix a b" for a b :: string
      using that by (auto simp: strict_prefix_def prefix_def)
    with le show ?thesis
      by fastforce
  qed
  with sub mset_purge_order show ?thesis
    by blast
qed

theorem purge_longest_first_witness:
  "deletions (w_log (purge_extras [''/root/A/B'', ''/root/A/B/C/file'', ''/root/A/B/C'']
                                  \<lparr> w_fs = nest_fs, w_log = [] \<rparr>))
     = [''/root/A/B/C/file'', ''/root/A/B/C'', ''/root/A/B'']
   \<and> (0::nat) < 1 \<and> (1::nat) < length [''/root/A/B/C/file'', ''/root/A/B/C'', ''/root/A/B'']
   \<and> length ''/root/A/B/C'' \<le> length ''/root/A/B/C/file''
   \<and> \<not> strict_prefix ''/root/A/B/C/file'' ''/root/A/B/C''"
proof -
  let ?xs = "[''/root/A/B'', ''/root/A/B/C/file'', ''/root/A/B/C'']"
  let ?ds = "deletions (w_log (purge_extras ?xs \<lparr> w_fs = nest_fs, w_log = [] \<rparr>))"
  have ev: "?ds = [''/root/A/B/C/file'', ''/root/A/B/C'', ''/root/A/B'']"
    by code_simp
  have idx: "(0::nat) < 1 \<and> 1 < length ?ds"
    unfolding ev by simp
  from purge_longest_first [of ?xs nest_fs] idx
  have "length (?ds ! 1) \<le> length (?ds ! 0) \<and> \<not> strict_prefix (?ds ! 0) (?ds ! 1)"
    by blast
  then show ?thesis
    unfolding ev by simp
qed

subsection \<open>The tree under replacement and removal\<close>






lemma get_nondir: "\<not> is_dir_node n \<Longrightarrow> get n (c # cs) = None"
  by (cases n) (simp_all add: is_dir_node_def)

lemma get_append:
  "get fs (p @ q) = (case get fs p of None \<Rightarrow> None | Some n \<Rightarrow> get n q)"
proof (induction p arbitrary: fs)
  case Nil
  then show ?case by simp
next
  case (Cons c p)
  then show ?case
    by (cases fs) (simp_all split: option.splits)
qed

lemma get_below_dir:
  "get fs (p @ c # q) = Some n \<Longrightarrow> dir_at fs p"
  by (auto simp: get_append dir_at_def split: option.splits node.splits)












subsection \<open>Restore\<close>




























lemma filter_butlast_snoc:
  "xs \<noteq> [] \<Longrightarrow> filter P (butlast xs @ [y]) = filter P (butlast xs) @ (if P y then [y] else [])"
  by simp





































lemma default_is_dry: "apply_restore env g a None w = apply_restore env g a (Some True) w"
  by (simp add: apply_restore_def)




lemma toy_leak_run:
  "apply_restore toy_env noon ''/b.tar.gz'' (Some True) \<lparr> w_fs = leak_fs, w_log = [] \<rparr>
     = (Inr \<lparr> r_archive = ''/b.tar.gz'', r_dry_run = True,
               r_diff = \<lparr> d_extra = [], d_missing = [''/data/sub/c''],
                          d_changed = [''/data/a.txt''] \<rparr>,
               r_purge_mode = ''strict'', r_crl_action = None, r_service_restart = None,
               r_errors = [] \<rparr>,
        \<lparr> w_fs = Dir [(''data'', Dir [(''a.txt'', File plain ''EVIL'')]),
                      (''b.tar.gz'', File plain ''leak''),
                      (''tmp'', Dir [])],
          w_log = [Makedirs ''/tmp/restore_staging_20240517_120000'',
                   ExtractAll ''/b.tar.gz'' ''/tmp/restore_staging_20240517_120000'',
                   Rmtree ''/tmp/restore_staging_20240517_120000''] \<rparr>)"
  by code_simp





text \<open>
  Claim C10: a call of \<open>apply_restore\<close> without the \<open>dry_run\<close> argument only returns a
  report, and nothing destructive happens unless \<open>dry_run=False\<close> is passed. The call
  without the argument is the call with \<open>dry_run\<close> true (\<open>default_is_dry\<close>), and it
  makes no purge, no copy, no CRL regeneration and no restart (\<open>dry_run_effects\<close>). But
  it extracts the archive, and \<open>tar.extractall\<close> is called without a filter: on an
  archive with a member named \<open>../../data/a.txt\<close> the call without the argument
  replaces the live file \<open>/data/a.txt\<close>, while its log shows the three calls of a dry
  run only.
\<close>

theorem default_run_overwrites:
  "get leak_fs [''data'', ''a.txt''] = Some (File plain ''hello'')
   \<and> get (w_fs (snd (apply_restore toy_env noon ''/b.tar.gz'' None
                        \<lparr> w_fs = leak_fs, w_log = [] \<rparr>))) [''data'', ''a.txt'']
     = Some (File plain ''EVIL'')
   \<and> w_log (snd (apply_restore toy_env noon ''/b.tar.gz'' None \<lparr> w_fs = leak_fs, w_log = [] \<rparr>))
     = [Makedirs ''/tmp/restore_staging_20240517_120000'',
        ExtractAll ''/b.tar.gz'' ''/tmp/restore_staging_20240517_120000'',
        Rmtree ''/tmp/restore_staging_20240517_120000'']"
proof -
  have "get leak_fs [''data'', ''a.txt''] = Some (File plain ''hello'')"
    by (simp add: leak_fs_def)
  then show ?thesis
    unfolding default_is_dry toy_leak_run by simp
qed

























end
